theory Spec2Isabelle
  imports Main "HOL-Library.Sublist"
begin

section \<open>Output streams\<close>

text \<open>
  The header prints through \<^verbatim>\<open>std::ostream\<close> and composes every text in a local
  \<^verbatim>\<open>std::stringstream\<close>. The stream is the C++ standard library's, not code of the
  header; the record below keeps the part of its state that the header's printing reads or
  writes: the \<^verbatim>\<open>boolalpha\<close> flag, the field width with the fill character and the
  adjustment that pad a formatted insertion, whether the stream is in good state
  (\<^verbatim>\<open>good()\<close>: no error bit set), and the characters written so far (what
  \<^verbatim>\<open>str()\<close> returns for a string stream).
\<close>

record ostream =
  boolalpha :: bool
  adjust_left :: bool
  width :: nat
  fill :: char
  good :: bool
  str :: string

text \<open>A default-constructed \<^verbatim>\<open>std::stringstream\<close>: no flag set that matters here,
  width 0, fill character space, good state, nothing written.\<close>

definition stringstream :: ostream where
  "stringstream =
     \<lparr>boolalpha = False, adjust_left = False, width = 0, fill = CHR '' '', good = True,
      str = []\<rparr>"

text \<open>The manipulator \<^verbatim>\<open>std::boolalpha\<close>.\<close>

definition set_boolalpha :: "ostream \<Rightarrow> ostream" where
  "set_boolalpha os = os\<lparr>boolalpha := True\<rparr>"

text \<open>
  Insertion of a character sequence (\<^verbatim>\<open>os << "text"\<close>, \<^verbatim>\<open>os << std::string\<close>): a
  formatted output function. On a stream in good state the sequence is padded with the fill
  character up to the field width (after the text when the adjustment is left, before it
  otherwise), written, and the width is reset to 0. On a stream that is not in good state
  the insertion writes nothing and leaves the width as it is; the stream stays in error.
\<close>

definition insert_string :: "string \<Rightarrow> ostream \<Rightarrow> ostream" where
  "insert_string s os =
     (if good os then
        (let padding = replicate (width os - length s) (fill os)
         in os\<lparr>str := str os @ (if adjust_left os then s @ padding else padding @ s),
                width := 0\<rparr>)
      else os)"

text \<open>
  Insertion of a \<^verbatim>\<open>bool\<close>: with \<^verbatim>\<open>boolalpha\<close> the words of the classic locale,
  without it the integer 1 or 0 (in a stream whose integer formatting flags are the default
  ones).
\<close>

definition insert_bool :: "bool \<Rightarrow> ostream \<Rightarrow> ostream" where
  "insert_bool b os =
     (if boolalpha os then insert_string (if b then ''true'' else ''false'') os
      else insert_string (if b then ''1'' else ''0'') os)"

text \<open>
  Insertion of an \<^verbatim>\<open>int\<close> in decimal, the default base, without \<^verbatim>\<open>showpos\<close>.
  Values of \<^verbatim>\<open>int\<close> are taken as the integers they denote.
\<close>

definition digit :: "nat \<Rightarrow> char" where
  "digit n = ''0123456789'' ! n"

fun decimal :: "nat \<Rightarrow> string" where
  "decimal n =
     (if n < 10 then [digit n]
      else decimal (n div 10) @ [digit (n mod 10)])"

declare decimal.simps [simp del]

definition insert_int :: "int \<Rightarrow> ostream \<Rightarrow> ostream" where
  "insert_int i os =
     insert_string ((if i < 0 then ''-'' else []) @ decimal (nat \<bar>i\<bar>)) os"



section \<open>Operands\<close>

text \<open>
  The header is a set of templates over the operand types. What a template uses of an
  operand type is passed to the model as a parameter: the six native comparison operators
  of a pair of types, the conversion \<^verbatim>\<open>static_cast<bool>\<close>, and the stream insertion
  \<^verbatim>\<open>operator<<\<close>. A user-defined comparison or conversion is a function call that may
  have side effects, so these take the state of the program (the world \<open>'w\<close>) and
  return it with their result.

  Every operand is bound by reference (\<^verbatim>\<open>const T &\<close>), in the capture objects and in the
  expression nodes: they hold no value of their own. A reference is modelled by what it
  reads: the value of the object referred to in each state of the program. A reference to a
  variable of the caller follows the variable; a reference bound to a literal or a temporary
  reads the same value in every state (its use after the temporary has gone is the caller's
  affair, and is not represented).
\<close>

type_synonym ('w, 't) ref = "'w \<Rightarrow> 't"

definition temporary :: "'t \<Rightarrow> ('w, 't) ref" where
  "temporary v w = v"

text \<open>A program state with \<^verbatim>\<open>int\<close> variables, and the reference to a variable.\<close>

type_synonym variables = "string \<Rightarrow> int"

definition variable :: "string \<Rightarrow> (variables, int) ref" where
  "variable name w = w name"

definition program_state :: "int \<Rightarrow> int \<Rightarrow> variables" where
  "program_state a b = (\<lambda>name. 0)(''a'' := a, ''b'' := b)"

type_synonym 'w effect = "'w \<Rightarrow> bool \<times> 'w"

type_synonym 't inserter = "'t \<Rightarrow> ostream \<Rightarrow> ostream"

text \<open>The insertion of an object that holds references reads them in the state of the
  program at the time of the insertion.\<close>

type_synonym ('e, 'w) printer = "'e \<Rightarrow> 'w \<Rightarrow> ostream \<Rightarrow> ostream"

record ('l, 'r, 'w) native =
  op_eq :: "'l \<Rightarrow> 'r \<Rightarrow> 'w effect"
  op_ne :: "'l \<Rightarrow> 'r \<Rightarrow> 'w effect"
  op_le :: "'l \<Rightarrow> 'r \<Rightarrow> 'w effect"
  op_ge :: "'l \<Rightarrow> 'r \<Rightarrow> 'w effect"
  op_lt :: "'l \<Rightarrow> 'r \<Rightarrow> 'w effect"
  op_gt :: "'l \<Rightarrow> 'r \<Rightarrow> 'w effect"

text \<open>The built-in operators of \<^verbatim>\<open>int\<close> and \<^verbatim>\<open>bool\<close> have no side effect.\<close>

definition pure :: "bool \<Rightarrow> 'w effect" where
  "pure b w = (b, w)"

definition int_native :: "(int, int, 'w) native" where
  "int_native =
     \<lparr>op_eq = (\<lambda>x y. pure (x = y)), op_ne = (\<lambda>x y. pure (x \<noteq> y)),
      op_le = (\<lambda>x y. pure (x \<le> y)), op_ge = (\<lambda>x y. pure (x \<ge> y)),
      op_lt = (\<lambda>x y. pure (x < y)), op_gt = (\<lambda>x y. pure (x > y))\<rparr>"

definition bool_to_bool :: "bool \<Rightarrow> 'w effect" where
  "bool_to_bool b = pure b"

definition int_to_bool :: "int \<Rightarrow> 'w effect" where
  "int_to_bool i = pure (i \<noteq> 0)"

text \<open>A comparison that counts its calls in the world, as a test double would.\<close>

definition counting_native :: "(int, int, nat) native" where
  "counting_native =
     \<lparr>op_eq = (\<lambda>x y n. (x = y, Suc n)), op_ne = (\<lambda>x y n. (x \<noteq> y, Suc n)),
      op_le = (\<lambda>x y n. (x \<le> y, Suc n)), op_ge = (\<lambda>x y n. (x \<ge> y, Suc n)),
      op_lt = (\<lambda>x y n. (x < y, Suc n)), op_gt = (\<lambda>x y n. (x > y, Suc n))\<rparr>"


section \<open>Comparator tags\<close>

datatype comparison = EQ | NE | LE | GE | LT | GT

text \<open>\<^verbatim>\<open>EQ::evaluate\<close> to \<^verbatim>\<open>GT::evaluate\<close>.\<close>

fun evaluate_C :: "('l, 'r, 'w) native \<Rightarrow> comparison \<Rightarrow> 'l \<Rightarrow> 'r \<Rightarrow> 'w effect" where
  "evaluate_C ops EQ op1 op2 = op_eq ops op1 op2"
| "evaluate_C ops NE op1 op2 = op_ne ops op1 op2"
| "evaluate_C ops LE op1 op2 = op_le ops op1 op2"
| "evaluate_C ops GE op1 op2 = op_ge ops op1 op2"
| "evaluate_C ops LT op1 op2 = op_lt ops op1 op2"
| "evaluate_C ops GT op1 op2 = op_gt ops op1 op2"

text \<open>\<^verbatim>\<open>operator<<(std::ostream &, const EQ)\<close> to \<^verbatim>\<open>operator<<(std::ostream &, const GT)\<close>.\<close>

fun insert_C :: "comparison inserter" where
  "insert_C EQ os = insert_string '' == '' os"
| "insert_C NE os = insert_string '' != '' os"
| "insert_C LE os = insert_string '' <= '' os"
| "insert_C GE os = insert_string '' >= '' os"
| "insert_C LT os = insert_string '' < '' os"
| "insert_C GT os = insert_string '' > '' os"


section \<open>Decomposition and NegatedDecomposition\<close>

text \<open>
  \<^verbatim>\<open>Decomposition<Expression>\<close> has three \<^verbatim>\<open>const\<close> members; the member
  \<^verbatim>\<open>value\<close> is the selector \<open>val\<close> here. \<^verbatim>\<open>NegatedDecomposition<Expression>\<close>
  derives from it and adds no member; its constructor passes its three arguments to the
  base class, and \<open>base\<close> is its base-class subobject.
\<close>

datatype 'e Decomposition = Decomposition (code: string) (expression: 'e) (val: bool)

datatype 'e NegatedDecomposition =
  NegatedDecomposition (code_N: string) (expression_N: 'e) (val_N: bool)

definition base :: "'e NegatedDecomposition \<Rightarrow> 'e Decomposition" where
  "base n = Decomposition (code_N n) (expression_N n) (val_N n)"

text \<open>
  \<^verbatim>\<open>operator<<(std::ostream &, const Decomposition &)\<close>, in its two steps: the text is
  composed in a local string stream (\<open>render\<close> is its \<^verbatim>\<open>str()\<close>), then inserted into
  the destination. The insertion of the expression is that of the template argument.
\<close>

definition render :: "('e, 'w) printer \<Rightarrow> 'e Decomposition \<Rightarrow> 'w \<Rightarrow> string" where
  "render ins_e this w =
     str (insert_bool (val this)
           (insert_string '') => ''
             (ins_e (expression this) w
               (insert_string '') => verify(''
                 (insert_string (code this)
                   (insert_string ''verify(''
                     (set_boolalpha stringstream)))))))"

definition insert_D :: "('e, 'w) printer \<Rightarrow> ('e Decomposition, 'w) printer" where
  "insert_D ins_e this w os = insert_string (render ins_e this w) os"

text \<open>\<^verbatim>\<open>Decomposition::operator!\<close> and \<^verbatim>\<open>Decomposition::operator bool\<close>.\<close>

definition operator_not :: "'e Decomposition \<Rightarrow> 'e NegatedDecomposition" where
  "operator_not this = NegatedDecomposition (code this) (expression this) (val this)"

definition operator_bool :: "'e Decomposition \<Rightarrow> bool" where
  "operator_bool this = val this"

text \<open>\<^verbatim>\<open>make_decomposition\<close>: the one call of \<^verbatim>\<open>x.evaluate()\<close>, the member function
  of the template argument.\<close>

definition make_decomposition ::
  "('e \<Rightarrow> 'w effect) \<Rightarrow> string \<Rightarrow> 'e \<Rightarrow> 'w \<Rightarrow> 'e Decomposition \<times> 'w" where
  "make_decomposition evaluate c x w =
     (case evaluate x w of (v, w') \<Rightarrow> (Decomposition c x v, w'))"

text \<open>\<^verbatim>\<open>operator<<(std::ostream &, const NegatedDecomposition &)\<close>.\<close>

definition render_N :: "('e, 'w) printer \<Rightarrow> 'e NegatedDecomposition \<Rightarrow> 'w \<Rightarrow> string" where
  "render_N ins_e this w =
     (let v = \<not> val_N this
      in str (insert_bool v
               (insert_string '') => ''
                 (ins_e (expression_N this) w
                   (insert_string '') => !verify(''
                     (insert_string (code_N this)
                       (insert_string ''!verify(''
                         (set_boolalpha stringstream))))))))"

definition insert_N :: "('e, 'w) printer \<Rightarrow> ('e NegatedDecomposition, 'w) printer" where
  "insert_N ins_e this w os = insert_string (render_N ins_e this w) os"

text \<open>\<^verbatim>\<open>NegatedDecomposition::operator!\<close> and \<^verbatim>\<open>NegatedDecomposition::operator bool\<close>.\<close>

definition operator_not_N :: "'e NegatedDecomposition \<Rightarrow> 'e Decomposition" where
  "operator_not_N this = Decomposition (code_N this) (expression_N this) (val_N this)"

definition operator_bool_N :: "'e NegatedDecomposition \<Rightarrow> bool" where
  "operator_bool_N this = (\<not> val_N this)"


section \<open>Expression nodes\<close>

text \<open>
  \<^verbatim>\<open>UnaryExpression<T>\<close> holds the reference \<^verbatim>\<open>const T & operand\<close>. Its
  \<^verbatim>\<open>evaluate()\<close> converts what the reference reads to \<^verbatim>\<open>bool\<close>; its insertion
  writes what the reference reads, at the time of the insertion, to a local string stream
  and inserts the finished string.
\<close>

datatype ('w, 't) UnaryExpression = UnaryExpression (operand: "('w, 't) ref")

definition evaluate_U :: "('t \<Rightarrow> 'w effect) \<Rightarrow> ('w, 't) UnaryExpression \<Rightarrow> 'w effect" where
  "evaluate_U to_bool this w = to_bool (operand this w) w"

definition insert_U :: "'t inserter \<Rightarrow> (('w, 't) UnaryExpression, 'w) printer" where
  "insert_U ins this w os =
     (let stream = ins (operand this w) stringstream
      in insert_string (str stream) os)"

text \<open>
  \<^verbatim>\<open>BinaryExpression<L, Comparison, R>\<close> holds the references \<^verbatim>\<open>const L & operand1\<close>
  and \<^verbatim>\<open>const R & operand2\<close>. The template argument \<^verbatim>\<open>Comparison\<close> is a stateless
  tag type; the model keeps it as the first component.
\<close>

datatype ('w, 'l, 'r) BinaryExpression =
  BinaryExpression (tag: comparison) (operand1: "('w, 'l) ref") (operand2: "('w, 'r) ref")

definition evaluate_B ::
  "('l, 'r, 'w) native \<Rightarrow> ('w, 'l, 'r) BinaryExpression \<Rightarrow> 'w effect" where
  "evaluate_B ops this w = evaluate_C ops (tag this) (operand1 this w) (operand2 this w) w"

definition insert_B ::
  "'l inserter \<Rightarrow> 'r inserter \<Rightarrow> (('w, 'l, 'r) BinaryExpression, 'w) printer" where
  "insert_B ins1 ins2 this w os =
     (let stream = ins2 (operand2 this w) (insert_C (tag this) (ins1 (operand1 this w) stringstream))
      in insert_string (str stream) os)"


section \<open>The capture pipeline\<close>

text \<open>The capture objects hold the source text and references to the operands.\<close>

datatype decompose = decompose (code_d: string)

datatype ('w, 't) FirstOperand = FirstOperand (code_F: string) (operand1_F: "('w, 't) ref")

datatype ('w, 'l, 'r) SecondOperand =
  SecondOperand (tag_S: comparison) (code_S: string)
    (operand1_S: "('w, 'l) ref") (operand2_S: "('w, 'r) ref")

text \<open>\<^verbatim>\<open>decompose::operator<<\<close>.\<close>

definition operator_shl :: "decompose \<Rightarrow> ('w, 't) ref \<Rightarrow> ('w, 't) FirstOperand" where
  "operator_shl this op1 = FirstOperand (code_d this) op1"

text \<open>\<^verbatim>\<open>FirstOperand::finish\<close> and \<^verbatim>\<open>SecondOperand::finish\<close>.\<close>

definition finish_F ::
  "('t \<Rightarrow> 'w effect) \<Rightarrow> ('w, 't) FirstOperand \<Rightarrow> 'w
     \<Rightarrow> ('w, 't) UnaryExpression Decomposition \<times> 'w" where
  "finish_F to_bool this =
     make_decomposition (evaluate_U to_bool) (code_F this) (UnaryExpression (operand1_F this))"

definition finish_S ::
  "('l, 'r, 'w) native \<Rightarrow> ('w, 'l, 'r) SecondOperand \<Rightarrow> 'w
     \<Rightarrow> ('w, 'l, 'r) BinaryExpression Decomposition \<times> 'w" where
  "finish_S ops this =
     make_decomposition (evaluate_B ops) (code_S this)
       (BinaryExpression (tag_S this) (operand1_S this) (operand2_S this))"

text \<open>The six comparison operators of \<^verbatim>\<open>FirstOperand\<close>.\<close>

definition operator_eq ::
  "('w, 'l) FirstOperand \<Rightarrow> ('w, 'r) ref \<Rightarrow> ('w, 'l, 'r) SecondOperand" where
  "operator_eq this op2 = SecondOperand EQ (code_F this) (operand1_F this) op2"

definition operator_ne ::
  "('w, 'l) FirstOperand \<Rightarrow> ('w, 'r) ref \<Rightarrow> ('w, 'l, 'r) SecondOperand" where
  "operator_ne this op2 = SecondOperand NE (code_F this) (operand1_F this) op2"

definition operator_le ::
  "('w, 'l) FirstOperand \<Rightarrow> ('w, 'r) ref \<Rightarrow> ('w, 'l, 'r) SecondOperand" where
  "operator_le this op2 = SecondOperand LE (code_F this) (operand1_F this) op2"

definition operator_ge ::
  "('w, 'l) FirstOperand \<Rightarrow> ('w, 'r) ref \<Rightarrow> ('w, 'l, 'r) SecondOperand" where
  "operator_ge this op2 = SecondOperand GE (code_F this) (operand1_F this) op2"

definition operator_lt ::
  "('w, 'l) FirstOperand \<Rightarrow> ('w, 'r) ref \<Rightarrow> ('w, 'l, 'r) SecondOperand" where
  "operator_lt this op2 = SecondOperand LT (code_F this) (operand1_F this) op2"

definition operator_gt ::
  "('w, 'l) FirstOperand \<Rightarrow> ('w, 'r) ref \<Rightarrow> ('w, 'l, 'r) SecondOperand" where
  "operator_gt this op2 = SecondOperand GT (code_F this) (operand1_F this) op2"

text \<open>
  The macro \<^verbatim>\<open>verify(x)\<close> expands to \<^verbatim>\<open>((CppVerify::decompose(#x) << x).finish())\<close>,
  with \<^verbatim>\<open>#x\<close> the text of the argument. When the argument reaches the capture as one
  operand, this is \<open>verify_unary\<close>.
\<close>

definition verify_unary ::
  "('t \<Rightarrow> 'w effect) \<Rightarrow> string \<Rightarrow> ('w, 't) ref \<Rightarrow> 'w
     \<Rightarrow> ('w, 't) UnaryExpression Decomposition \<times> 'w" where
  "verify_unary to_bool x_text x w = finish_F to_bool (operator_shl (decompose x_text) x) w"


section \<open>Operator precedence\<close>

text \<open>
  The binary operator classes of the C++ expression grammar, from the multiplicative
  operators to assignment, and how tightly each binds: a larger number binds tighter. The
  capture operator \<^verbatim>\<open>decompose::operator<<\<close> is a shift operator.
\<close>

datatype operator_class =
  multiplicative | additive | shift | relational | equality
  | bitwise_and | bitwise_xor | bitwise_or | logical_and | logical_or | assignment

fun binding_strength :: "operator_class \<Rightarrow> nat" where
  "binding_strength multiplicative = 11"
| "binding_strength additive = 10"
| "binding_strength shift = 9"
| "binding_strength relational = 8"
| "binding_strength equality = 7"
| "binding_strength bitwise_and = 6"
| "binding_strength bitwise_xor = 5"
| "binding_strength bitwise_or = 4"
| "binding_strength logical_and = 3"
| "binding_strength logical_or = 2"
| "binding_strength assignment = 1"

text \<open>The class of the operator that a comparator tag stands for.\<close>

fun class_of :: "comparison \<Rightarrow> operator_class" where
  "class_of EQ = equality"
| "class_of NE = equality"
| "class_of LE = relational"
| "class_of GE = relational"
| "class_of LT = relational"
| "class_of GT = relational"

text \<open>
  In \<^verbatim>\<open>decompose(#x) << l op r\<close> the capture takes \<^verbatim>\<open>l\<close> alone, and \<^verbatim>\<open>op\<close>
  applies to the capture object, when \<^verbatim>\<open>op\<close> does not bind tighter than the shift; an
  operator that binds tighter is applied first, and the capture takes \<^verbatim>\<open>l op r\<close> whole.
\<close>

definition capture_takes_left :: "operator_class \<Rightarrow> bool" where
  "capture_takes_left k \<longleftrightarrow> binding_strength k \<le> binding_strength shift"


section \<open>Uses of a result\<close>

text \<open>
  What a caller does with a result once it has it, as the tests do: print it (in the state
  the program is in by then), negate it, ask for its boolean. A result is plain or negated;
  \<open>underlying\<close> is the \<^verbatim>\<open>Decomposition\<close> it is or derives from.
\<close>

datatype 'e result = Plain "'e Decomposition" | Negated "'e NegatedDecomposition"

datatype 'w use = Print 'w | Negate | Query

fun underlying :: "'e result \<Rightarrow> 'e Decomposition" where
  "underlying (Plain d) = d"
| "underlying (Negated n) = base n"

fun is_negated :: "'e result \<Rightarrow> bool" where
  "is_negated (Plain d) = False"
| "is_negated (Negated n) = True"

fun insert_result :: "('e, 'w) printer \<Rightarrow> ('e result, 'w) printer" where
  "insert_result ins_e (Plain d) w os = insert_D ins_e d w os"
| "insert_result ins_e (Negated n) w os = insert_N ins_e n w os"

fun negate :: "'e result \<Rightarrow> 'e result" where
  "negate (Plain d) = Negated (operator_not d)"
| "negate (Negated n) = Plain (operator_not_N n)"

fun to_bool_result :: "'e result \<Rightarrow> bool" where
  "to_bool_result (Plain d) = operator_bool d"
| "to_bool_result (Negated n) = operator_bool_N n"

text \<open>The state of the caller: the result at hand, the stream printed to, and the booleans
  observed so far.\<close>

fun apply_use ::
  "('e, 'w) printer \<Rightarrow> 'w use \<Rightarrow> 'e result \<times> ostream \<times> bool list
     \<Rightarrow> 'e result \<times> ostream \<times> bool list" where
  "apply_use ins_e (Print w) (r, os, seen) = (r, insert_result ins_e r w os, seen)"
| "apply_use ins_e Negate (r, os, seen) = (negate r, os, seen)"
| "apply_use ins_e Query (r, os, seen) = (r, os, seen @ [to_bool_result r])"

definition apply_uses ::
  "('e, 'w) printer \<Rightarrow> 'w use list \<Rightarrow> 'e result \<times> ostream \<times> bool list
     \<Rightarrow> 'e result \<times> ostream \<times> bool list" where
  "apply_uses ins_e us s = fold (apply_use ins_e) us s"


section \<open>Streams and texts\<close>

lemma str_insert_string:
  "str (insert_string s os) =
     (if good os then
        str os @ (if adjust_left os then s @ replicate (width os - length s) (fill os)
                  else replicate (width os - length s) (fill os) @ s)
      else str os)"
  by (simp add: insert_string_def Let_def)

lemma width_insert_string: "width (insert_string s os) = (if good os then 0 else width os)"
  by (simp add: insert_string_def Let_def)

lemma boolalpha_insert_string: "boolalpha (insert_string s os) = boolalpha os"
  by (simp add: insert_string_def Let_def)

lemma adjust_left_insert_string: "adjust_left (insert_string s os) = adjust_left os"
  by (simp add: insert_string_def Let_def)

lemma fill_insert_string: "fill (insert_string s os) = fill os"
  by (simp add: insert_string_def Let_def)

lemma good_insert_string: "good (insert_string s os) = good os"
  by (simp add: insert_string_def Let_def)

lemmas insert_string_simps =
  str_insert_string width_insert_string boolalpha_insert_string adjust_left_insert_string
  fill_insert_string good_insert_string


lemma str_insert_string_ready:
  "str (insert_string s (os\<lparr>width := 0, good := True\<rparr>)) = str os @ s"
  by (simp add: insert_string_simps)


lemma render_text:
  "render (\<lambda>e w. insert_string (f e w)) d w =
     ''verify('' @ code d @ '') => verify('' @ f (expression d) w @ '') => ''
       @ (if val d then ''true'' else ''false'')"
  by (simp add: render_def insert_bool_def insert_string_simps set_boolalpha_def stringstream_def)

lemma render_N_text:
  "render_N (\<lambda>e w. insert_string (f e w)) n w =
     ''!verify('' @ code_N n @ '') => !verify('' @ f (expression_N n) w @ '') => ''
       @ (if val_N n then ''false'' else ''true'')"
  by (simp add: render_N_def insert_bool_def insert_string_simps set_boolalpha_def stringstream_def)

lemma insert_U_eta:
  "insert_U ins = (\<lambda>e w. insert_string (str (ins (operand e w) stringstream)))"
  by (rule ext)+ (simp add: insert_U_def)

lemma insert_B_eta:
  "insert_B ins1 ins2 =
     (\<lambda>e w. insert_string
        (str (ins2 (operand2 e w) (insert_C (tag e) (ins1 (operand1 e w) stringstream)))))"
  by (rule ext)+ (simp add: insert_B_def)

lemma render_U:
  "render (insert_U ins) d w =
     ''verify('' @ code d @ '') => verify(''
       @ str (ins (operand (expression d) w) stringstream) @ '') => ''
       @ (if val d then ''true'' else ''false'')"
  by (simp only: insert_U_eta render_text)

lemma render_B:
  "render (insert_B ins1 ins2) d w =
     ''verify('' @ code d @ '') => verify(''
       @ str (ins2 (operand2 (expression d) w)
               (insert_C (tag (expression d)) (ins1 (operand1 (expression d) w) stringstream)))
       @ '') => '' @ (if val d then ''true'' else ''false'')"
  by (simp only: insert_B_eta render_text)

lemma render_N_U:
  "render_N (insert_U ins) n w =
     ''!verify('' @ code_N n @ '') => !verify(''
       @ str (ins (operand (expression_N n) w) stringstream) @ '') => ''
       @ (if val_N n then ''false'' else ''true'')"
  by (simp only: insert_U_eta render_N_text)

lemma render_N_B:
  "render_N (insert_B ins1 ins2) n w =
     ''!verify('' @ code_N n @ '') => !verify(''
       @ str (ins2 (operand2 (expression_N n) w)
               (insert_C (tag (expression_N n)) (ins1 (operand1 (expression_N n) w) stringstream)))
       @ '') => '' @ (if val_N n then ''false'' else ''true'')"
  by (simp only: insert_B_eta render_N_text)

lemma written_U: "str (insert_string (f x) stringstream) = f x"
  by (simp add: insert_string_simps stringstream_def)

lemma written_B:
  "str (insert_string (g y) (insert_C t (insert_string (f x) stringstream))) =
     f x @ (case t of EQ \<Rightarrow> '' == '' | NE \<Rightarrow> '' != '' | LE \<Rightarrow> '' <= ''
            | GE \<Rightarrow> '' >= '' | LT \<Rightarrow> '' < '' | GT \<Rightarrow> '' > '') @ g y"
  by (cases t) (simp_all add: insert_string_simps stringstream_def)


section \<open>Construction and uses\<close>

lemma make_decomposition_eq:
  "make_decomposition ev c x w = (Decomposition c x (fst (ev x w)), snd (ev x w))"
  by (simp add: make_decomposition_def split: prod.split)

lemma finish_S_eq:
  "finish_S ops (SecondOperand t c x y) w =
     (Decomposition c (BinaryExpression t x y) (fst (evaluate_C ops t (x w) (y w) w)),
      snd (evaluate_C ops t (x w) (y w) w))"
  by (simp add: finish_S_def make_decomposition_eq evaluate_B_def)

lemma finish_F_eq:
  "finish_F to_bool (FirstOperand c x) w =
     (Decomposition c (UnaryExpression x) (fst (to_bool (x w) w)), snd (to_bool (x w) w))"
  by (simp add: finish_F_def make_decomposition_eq evaluate_U_def)

lemma operator_shl_eq: "operator_shl (decompose c) x = FirstOperand c x"
  by (simp add: operator_shl_def)

lemmas comparison_operator_defs =
  operator_eq_def operator_ne_def operator_le_def operator_ge_def operator_lt_def operator_gt_def

lemma underlying_negate: "underlying (negate r) = underlying r"
  by (cases r) (simp_all add: operator_not_def operator_not_N_def base_def)

lemma underlying_apply_use: "underlying (fst (apply_use ins_e u s)) = underlying (fst s)"
  by (cases s; cases u) (simp_all add: underlying_negate)

lemma underlying_apply_uses: "underlying (fst (apply_uses ins_e us s)) = underlying (fst s)"
  unfolding apply_uses_def
  by (induction us arbitrary: s) (simp_all add: underlying_apply_use)


section \<open>The tests of the header\<close>

text \<open>The cases of \<^verbatim>\<open>verify.test.cpp\<close> on boolean literals and on the variables
  \<^verbatim>\<open>a = 1\<close> and \<^verbatim>\<open>b = 2\<close>.\<close>

lemma test_bool_literals:
  "operator_bool (fst (verify_unary bool_to_bool ''true'' (temporary True) w))"
  "operator_bool_N (operator_not (fst (verify_unary bool_to_bool ''false'' (temporary False) w)))"
  "operator_bool (operator_not_N (operator_not
     (fst (verify_unary bool_to_bool ''true'' (temporary True) w))))"
  by (simp_all add: verify_unary_def operator_shl_eq finish_F_eq bool_to_bool_def pure_def
      temporary_def operator_bool_def operator_bool_N_def operator_not_def operator_not_N_def)

lemma test_cast_to_bool:
  "operator_bool (fst (verify_unary int_to_bool ''a'' (variable ''a'') (program_state 1 2)))"
  "\<not> operator_bool_N (operator_not
       (fst (verify_unary int_to_bool ''a'' (variable ''a'') (program_state 1 2))))"
  by (simp_all add: verify_unary_def operator_shl_eq finish_F_eq int_to_bool_def pure_def
      variable_def program_state_def operator_bool_def operator_bool_N_def operator_not_def)

lemma test_integer_comparison:
  "operator_bool (fst (finish_S int_native
     (operator_lt (operator_shl (decompose ''a < b'') (variable ''a'')) (variable ''b''))
     (program_state 1 2)))"
  "operator_bool (fst (finish_S int_native
     (operator_gt (operator_shl (decompose ''b > a'') (variable ''b'')) (variable ''a''))
     (program_state 1 2)))"
  "operator_bool (fst (finish_S int_native
     (operator_le (operator_shl (decompose ''a <= b'') (variable ''a'')) (variable ''b''))
     (program_state 1 2)))"
  "operator_bool (fst (finish_S int_native
     (operator_ge (operator_shl (decompose ''b >= a'') (variable ''b'')) (variable ''a''))
     (program_state 1 2)))"
  "operator_bool (fst (finish_S int_native
     (operator_ne (operator_shl (decompose ''a != b'') (variable ''a'')) (variable ''b''))
     (program_state 1 2)))"
  "\<not> operator_bool (fst (finish_S int_native
     (operator_eq (operator_shl (decompose ''a == b'') (variable ''a'')) (variable ''b''))
     (program_state 1 2)))"
  by (simp_all add: operator_shl_eq comparison_operator_defs finish_S_eq int_native_def pure_def
      variable_def program_state_def operator_bool_def)


section \<open>The claims\<close>

text \<open>
  C1. For operands \<open>x\<close> and \<open>y\<close> of any two types and each of the six comparators,
  decomposing \<^verbatim>\<open>x op y\<close> stores, and the conversion to \<^verbatim>\<open>bool\<close> returns, the boolean
  that the native operator of the operand types gives on what \<open>x\<close> and \<open>y\<close> refer to
  when the result is constructed: \<^verbatim>\<open>==\<close> for \<open>EQ\<close>, \<^verbatim>\<open>!=\<close> for \<open>NE\<close>, \<^verbatim>\<open><=\<close>
  for \<open>LE\<close>, \<^verbatim>\<open>>=\<close> for \<open>GE\<close>, \<^verbatim>\<open><\<close> for \<open>LT\<close> and \<^verbatim>\<open>>\<close> for \<open>GT\<close>.
\<close>

theorem decomposed_comparison_is_native:
  fixes ops :: "('l, 'r, 'w) native"
  shows
    "(let d = fst (finish_S ops (operator_eq (operator_shl (decompose c) x) y) w)
      in val d = fst (op_eq ops (x w) (y w) w)
         \<and> operator_bool d = fst (op_eq ops (x w) (y w) w))
     \<and> (let d = fst (finish_S ops (operator_ne (operator_shl (decompose c) x) y) w)
      in val d = fst (op_ne ops (x w) (y w) w)
         \<and> operator_bool d = fst (op_ne ops (x w) (y w) w))
     \<and> (let d = fst (finish_S ops (operator_le (operator_shl (decompose c) x) y) w)
      in val d = fst (op_le ops (x w) (y w) w)
         \<and> operator_bool d = fst (op_le ops (x w) (y w) w))
     \<and> (let d = fst (finish_S ops (operator_ge (operator_shl (decompose c) x) y) w)
      in val d = fst (op_ge ops (x w) (y w) w)
         \<and> operator_bool d = fst (op_ge ops (x w) (y w) w))
     \<and> (let d = fst (finish_S ops (operator_lt (operator_shl (decompose c) x) y) w)
      in val d = fst (op_lt ops (x w) (y w) w)
         \<and> operator_bool d = fst (op_lt ops (x w) (y w) w))
     \<and> (let d = fst (finish_S ops (operator_gt (operator_shl (decompose c) x) y) w)
      in val d = fst (op_gt ops (x w) (y w) w)
         \<and> operator_bool d = fst (op_gt ops (x w) (y w) w))"
  by (simp add: operator_shl_eq comparison_operator_defs finish_S_eq operator_bool_def)

text \<open>
  C2. Negating twice gives back the result it started from: \<^verbatim>\<open>!!r\<close> is a plain result
  with the code, the expression node and the stored value of \<open>r\<close>, so it converts to the
  same boolean and prints the same text, to any stream and in any state of the program.
  Each negation copies the three members and nothing else: it is given neither the operand
  types' operations nor the world, so it evaluates nothing, and the node of the negated
  result in between is the node of \<open>r\<close>. The same holds starting from a negated result.
\<close>

theorem double_negation_is_identity:
  "operator_not_N (operator_not d) = d
   \<and> operator_bool (operator_not_N (operator_not d)) = operator_bool d
   \<and> render ins_e (operator_not_N (operator_not d)) w = render ins_e d w
   \<and> insert_D ins_e (operator_not_N (operator_not d)) w os = insert_D ins_e d w os
   \<and> base (operator_not d) = d
   \<and> operator_not (operator_not_N n) = n"
  by (cases d; cases n) (simp add: operator_not_def operator_not_N_def base_def)

text \<open>
  C3. Constructing a result runs \<^verbatim>\<open>evaluate()\<close> of its node once: the world after
  \<^verbatim>\<open>make_decomposition\<close>, and after either \<^verbatim>\<open>finish()\<close>, is the world after one call of
  the node's evaluation (one conversion to \<^verbatim>\<open>bool\<close>, one native comparison, on what the
  operands refer to) from the world before, and the stored value is the boolean of that
  call; a comparison that counts its calls has counted one more. However a caller then
  prints, negates and queries the result, in any order and number and in whatever states
  of the program, the code, the node and the stored value stay what they were, and every
  boolean observed is the stored value, complemented when the result at hand is a negated
  one. None of these uses is given the operations that evaluate, and none returns a world.
\<close>

theorem evaluated_once_and_fixed:
  "make_decomposition evaluate c e w = (Decomposition c e (fst (evaluate e w)), snd (evaluate e w))
   \<and> finish_F to_bool (FirstOperand c x) w =
        (Decomposition c (UnaryExpression x) (fst (to_bool (x w) w)), snd (to_bool (x w) w))
   \<and> finish_S ops (SecondOperand t c x y) w =
        (Decomposition c (BinaryExpression t x y) (fst (evaluate_C ops t (x w) (y w) w)),
         snd (evaluate_C ops t (x w) (y w) w))
   \<and> snd (finish_S counting_native (SecondOperand t c i j) k) = Suc k
   \<and> underlying (fst (apply_uses ins_e us (r, os, seen))) = underlying r
   \<and> to_bool_result r = (val (underlying r) \<noteq> is_negated r)"
proof -
  have "snd (finish_S counting_native (SecondOperand t c i j) k) = Suc k"
    by (cases t) (simp_all add: finish_S_eq counting_native_def)
  moreover have "to_bool_result r = (val (underlying r) \<noteq> is_negated r)"
    by (cases r) (simp_all add: operator_bool_def operator_bool_N_def base_def)
  ultimately show ?thesis
    by (simp add: make_decomposition_eq finish_F_eq finish_S_eq underlying_apply_uses)
qed

text \<open>
  C4. The text composed for a result is \<^verbatim>\<open>verify(\<close>, the source text, \<^verbatim>\<open>) => verify(\<close>,
  the text of the expression node, \<^verbatim>\<open>) => \<close> and the word \<^verbatim>\<open>true\<close> or \<^verbatim>\<open>false\<close> of its
  boolean; for a negated result the same with \<^verbatim>\<open>!verify(\<close> in both places. The text of a
  unary node is what the operand's insertion operator writes to a fresh string stream for
  the value the operand refers to; that of a binary node is what the first operand's
  operator, the insertion of the comparator and the second operand's operator write to one
  fresh string stream, in this order. When the operands' operators write a text \<open>f x\<close> and
  \<open>g y\<close>, these are \<open>f x\<close> for the unary node and \<open>f x\<close>, the comparator between two
  spaces, \<open>g y\<close> for the binary node. A destination stream in good state with no field
  width set receives exactly the composed text. For the source text \<^verbatim>\<open>a < b\<close> with 23 and
  42 the texts are \<^verbatim>\<open>verify(a < b) => verify(23 < 42) => true\<close> and, negated,
  \<^verbatim>\<open>!verify(a < b) => !verify(23 < 42) => false\<close>; for the source text \<^verbatim>\<open>x\<close> with 0 the
  text is \<^verbatim>\<open>verify(x) => verify(0) => false\<close>.
\<close>

theorem printing_is_exact:
  "render (insert_U ins) u w =
     ''verify('' @ code u @ '') => verify(''
       @ str (ins (operand (expression u) w) stringstream)
       @ '') => '' @ (if operator_bool u then ''true'' else ''false'')
   \<and> render (insert_B ins1 ins2) b w =
     ''verify('' @ code b @ '') => verify(''
       @ str (ins2 (operand2 (expression b) w)
               (insert_C (tag (expression b)) (ins1 (operand1 (expression b) w) stringstream)))
       @ '') => '' @ (if operator_bool b then ''true'' else ''false'')
   \<and> render_N (insert_U ins) nu w =
     ''!verify('' @ code_N nu @ '') => !verify(''
       @ str (ins (operand (expression_N nu) w) stringstream)
       @ '') => '' @ (if operator_bool_N nu then ''true'' else ''false'')
   \<and> render_N (insert_B ins1 ins2) nb w =
     ''!verify('' @ code_N nb @ '') => !verify(''
       @ str (ins2 (operand2 (expression_N nb) w)
               (insert_C (tag (expression_N nb)) (ins1 (operand1 (expression_N nb) w) stringstream)))
       @ '') => '' @ (if operator_bool_N nb then ''true'' else ''false'')
   \<and> render (insert_U (\<lambda>x. insert_string (f x))) u w =
     ''verify('' @ code u @ '') => verify('' @ f (operand (expression u) w)
       @ '') => '' @ (if operator_bool u then ''true'' else ''false'')
   \<and> render (insert_B (\<lambda>x. insert_string (f x)) (\<lambda>y. insert_string (g y))) b w =
     ''verify('' @ code b @ '') => verify('' @ f (operand1 (expression b) w)
       @ (case tag (expression b) of EQ \<Rightarrow> '' == '' | NE \<Rightarrow> '' != '' | LE \<Rightarrow> '' <= ''
              | GE \<Rightarrow> '' >= '' | LT \<Rightarrow> '' < '' | GT \<Rightarrow> '' > '')
       @ g (operand2 (expression b) w)
       @ '') => '' @ (if operator_bool b then ''true'' else ''false'')
   \<and> render_N (insert_U (\<lambda>x. insert_string (f x))) nu w =
     ''!verify('' @ code_N nu @ '') => !verify('' @ f (operand (expression_N nu) w)
       @ '') => '' @ (if operator_bool_N nu then ''true'' else ''false'')
   \<and> render_N (insert_B (\<lambda>x. insert_string (f x)) (\<lambda>y. insert_string (g y))) nb w =
     ''!verify('' @ code_N nb @ '') => !verify('' @ f (operand1 (expression_N nb) w)
       @ (case tag (expression_N nb) of EQ \<Rightarrow> '' == '' | NE \<Rightarrow> '' != '' | LE \<Rightarrow> '' <= ''
              | GE \<Rightarrow> '' >= '' | LT \<Rightarrow> '' < '' | GT \<Rightarrow> '' > '')
       @ g (operand2 (expression_N nb) w)
       @ '') => '' @ (if operator_bool_N nb then ''true'' else ''false'')
   \<and> str (insert_D ins_e d w (os\<lparr>width := 0, good := True\<rparr>)) = str os @ render ins_e d w
   \<and> str (insert_N ins_e n w (os\<lparr>width := 0, good := True\<rparr>)) = str os @ render_N ins_e n w
   \<and> render (insert_B insert_int insert_int)
        (fst (finish_S int_native
          (operator_lt (operator_shl (decompose ''a < b'') (temporary 23)) (temporary 42)) w)) w
       = ''verify(a < b) => verify(23 < 42) => true''
   \<and> render_N (insert_B insert_int insert_int)
        (operator_not (fst (finish_S int_native
          (operator_lt (operator_shl (decompose ''a < b'') (temporary 23)) (temporary 42)) w))) w
       = ''!verify(a < b) => !verify(23 < 42) => false''
   \<and> render (insert_U insert_int)
        (fst (verify_unary int_to_bool ''x'' (temporary 0) w)) w
       = ''verify(x) => verify(0) => false''"
proof -
  have example:
    "fst (finish_S int_native
       (operator_lt (operator_shl (decompose ''a < b'') (temporary 23)) (temporary 42)) w)
       = Decomposition ''a < b'' (BinaryExpression LT (temporary 23) (temporary 42)) True"
    by (simp add: operator_shl_eq operator_lt_def finish_S_eq int_native_def pure_def
        temporary_def)
  have example_U:
    "fst (verify_unary int_to_bool ''x'' (temporary 0) w)
       = Decomposition ''x'' (UnaryExpression (temporary 0)) False"
    by (simp add: verify_unary_def operator_shl_eq finish_F_eq int_to_bool_def pure_def
        temporary_def)
  have plain: "render (insert_B insert_int insert_int)
      (Decomposition ''a < b'' (BinaryExpression LT (temporary 23) (temporary 42)) True) w
       = ''verify(a < b) => verify(23 < 42) => true''"
    by (simp add: render_B insert_int_def insert_string_simps stringstream_def temporary_def
        decimal.simps digit_def)
  have negated: "render_N (insert_B insert_int insert_int)
      (operator_not
        (Decomposition ''a < b'' (BinaryExpression LT (temporary 23) (temporary 42)) True)) w
       = ''!verify(a < b) => !verify(23 < 42) => false''"
    by (simp add: render_N_B insert_int_def insert_string_simps stringstream_def temporary_def
        decimal.simps digit_def operator_not_def)
  have unary: "render (insert_U insert_int)
      (Decomposition ''x'' (UnaryExpression (temporary 0)) False) w
       = ''verify(x) => verify(0) => false''"
    by (simp add: render_U insert_int_def insert_string_simps stringstream_def temporary_def
        decimal.simps digit_def)
  have streams:
    "str (insert_D ins_e d w (os\<lparr>width := 0, good := True\<rparr>)) = str os @ render ins_e d w"
    "str (insert_N ins_e n w (os\<lparr>width := 0, good := True\<rparr>)) = str os @ render_N ins_e n w"
    by (simp_all add: insert_D_def insert_N_def str_insert_string_ready)
  have formats:
    "render (insert_U ins) u w =
     ''verify('' @ code u @ '') => verify(''
       @ str (ins (operand (expression u) w) stringstream)
       @ '') => '' @ (if operator_bool u then ''true'' else ''false'')"
    "render (insert_B ins1 ins2) b w =
     ''verify('' @ code b @ '') => verify(''
       @ str (ins2 (operand2 (expression b) w)
               (insert_C (tag (expression b)) (ins1 (operand1 (expression b) w) stringstream)))
       @ '') => '' @ (if operator_bool b then ''true'' else ''false'')"
    "render_N (insert_U ins) nu w =
     ''!verify('' @ code_N nu @ '') => !verify(''
       @ str (ins (operand (expression_N nu) w) stringstream)
       @ '') => '' @ (if operator_bool_N nu then ''true'' else ''false'')"
    "render_N (insert_B ins1 ins2) nb w =
     ''!verify('' @ code_N nb @ '') => !verify(''
       @ str (ins2 (operand2 (expression_N nb) w)
               (insert_C (tag (expression_N nb)) (ins1 (operand1 (expression_N nb) w) stringstream)))
       @ '') => '' @ (if operator_bool_N nb then ''true'' else ''false'')"
    by (simp_all add: render_U render_B render_N_U render_N_B operator_bool_def operator_bool_N_def)
  have pinned:
    "render (insert_U (\<lambda>x. insert_string (f x))) u w =
     ''verify('' @ code u @ '') => verify('' @ f (operand (expression u) w)
       @ '') => '' @ (if operator_bool u then ''true'' else ''false'')"
    "render (insert_B (\<lambda>x. insert_string (f x)) (\<lambda>y. insert_string (g y))) b w =
     ''verify('' @ code b @ '') => verify('' @ f (operand1 (expression b) w)
       @ (case tag (expression b) of EQ \<Rightarrow> '' == '' | NE \<Rightarrow> '' != '' | LE \<Rightarrow> '' <= ''
              | GE \<Rightarrow> '' >= '' | LT \<Rightarrow> '' < '' | GT \<Rightarrow> '' > '')
       @ g (operand2 (expression b) w)
       @ '') => '' @ (if operator_bool b then ''true'' else ''false'')"
    "render_N (insert_U (\<lambda>x. insert_string (f x))) nu w =
     ''!verify('' @ code_N nu @ '') => !verify('' @ f (operand (expression_N nu) w)
       @ '') => '' @ (if operator_bool_N nu then ''true'' else ''false'')"
    "render_N (insert_B (\<lambda>x. insert_string (f x)) (\<lambda>y. insert_string (g y))) nb w =
     ''!verify('' @ code_N nb @ '') => !verify('' @ f (operand1 (expression_N nb) w)
       @ (case tag (expression_N nb) of EQ \<Rightarrow> '' == '' | NE \<Rightarrow> '' != '' | LE \<Rightarrow> '' <= ''
              | GE \<Rightarrow> '' >= '' | LT \<Rightarrow> '' < '' | GT \<Rightarrow> '' > '')
       @ g (operand2 (expression_N nb) w)
       @ '') => '' @ (if operator_bool_N nb then ''true'' else ''false'')"
    by (simp_all add: render_U render_B render_N_U render_N_B written_U written_B
        operator_bool_def operator_bool_N_def)
  show ?thesis
    unfolding example example_U using plain negated unary streams formats pinned by blast
qed


text \<open>
  C6, as stated, does not hold. It orders the capture operator below the six comparisons,
  below arithmetic and above assignment. The capture operator is a shift: it binds tighter
  than the comparisons (which is why it takes the left operand only), so the claimed order
  fails at \<^verbatim>\<open><\<close>; read the other way round (a lower rank binding tighter), it fails at
  the arithmetic operators and at assignment.
\<close>

theorem capture_precedence_counterexample:
  "\<not> (binding_strength shift < binding_strength (class_of LT)
       \<and> binding_strength shift < binding_strength additive
       \<and> binding_strength assignment < binding_strength shift)
   \<and> \<not> (binding_strength (class_of LT) < binding_strength shift
       \<and> binding_strength additive < binding_strength shift
       \<and> binding_strength shift < binding_strength assignment)"
  by simp

text \<open>
  C6, amended. The capture operator binds looser than arithmetic and tighter than the six
  comparisons and than assignment. So an arithmetic expression reaches the capture whole,
  while before a comparison the capture takes the left operand only: stage 1 makes a
  \<^verbatim>\<open>FirstOperand\<close> with the source text and that operand; the comparison operator then
  applies to the \<^verbatim>\<open>FirstOperand\<close> and gives a \<^verbatim>\<open>SecondOperand\<close> with the source text,
  the first operand, the comparator tag and the second operand; \<^verbatim>\<open>finish()\<close> builds a
  unary node from a \<^verbatim>\<open>FirstOperand\<close> and a binary node from a \<^verbatim>\<open>SecondOperand\<close>, runs
  its evaluation once and constructs the result from the source text, the node and the
  boolean.
\<close>

theorem capture_protocol:
  "binding_strength shift < binding_strength multiplicative
   \<and> binding_strength shift < binding_strength additive
   \<and> binding_strength (class_of cmp) < binding_strength shift
   \<and> binding_strength assignment < binding_strength shift
   \<and> capture_takes_left (class_of cmp)
   \<and> \<not> capture_takes_left additive
   \<and> \<not> capture_takes_left multiplicative
   \<and> operator_shl (decompose c) x = FirstOperand c x
   \<and> operator_eq (FirstOperand c x) y = SecondOperand EQ c x y
   \<and> operator_ne (FirstOperand c x) y = SecondOperand NE c x y
   \<and> operator_le (FirstOperand c x) y = SecondOperand LE c x y
   \<and> operator_ge (FirstOperand c x) y = SecondOperand GE c x y
   \<and> operator_lt (FirstOperand c x) y = SecondOperand LT c x y
   \<and> operator_gt (FirstOperand c x) y = SecondOperand GT c x y
   \<and> finish_F to_bool (FirstOperand c x) w =
        (Decomposition c (UnaryExpression x) (fst (to_bool (x w) w)), snd (to_bool (x w) w))
   \<and> finish_S ops (SecondOperand cmp c x y) w =
        (Decomposition c (BinaryExpression cmp x y) (fst (evaluate_C ops cmp (x w) (y w) w)),
         snd (evaluate_C ops cmp (x w) (y w) w))"
  by (cases cmp)
    (simp_all add: capture_takes_left_def operator_shl_eq comparison_operator_defs finish_F_eq
      finish_S_eq)

text \<open>
  C7. Decomposing a bare operand gives a result whose boolean is the conversion to
  \<^verbatim>\<open>bool\<close> of what the operand refers to, and the negation of that result converts to
  the complement. For a boolean literal \<open>v\<close> these are \<open>v\<close> and \<open>\<not> v\<close>.
\<close>

theorem unary_truthiness:
  "(let d = fst (verify_unary to_bool c x w)
    in operator_bool d = fst (to_bool (x w) w)
       \<and> operator_bool_N (operator_not d) = (\<not> fst (to_bool (x w) w)))
   \<and> (let d = fst (verify_unary bool_to_bool c (temporary v) w)
      in operator_bool d = v \<and> operator_bool_N (operator_not d) = (\<not> v))"
  by (simp add: verify_unary_def operator_shl_eq finish_F_eq operator_bool_def
      operator_bool_N_def operator_not_def bool_to_bool_def pure_def temporary_def)





end
